theory Spec2Isabelle
  imports Main
begin

section \<open>The simple command pattern: a light, three commands, a remote control\<close>

text \<open>
  The program of \<^verbatim>\<open>behavioral/simple_command.c\<close>. Objects live on the heap and are
  passed by pointer; a command object is shared between the caller and the remote's
  history and is written by its own \<^verbatim>\<open>execute\<close>, so the model keeps an explicit store:
  one map from addresses to lights, one from addresses to command objects, and the text
  written to standard output. Every address is taken to hold an allocated object of the
  type it is used at; allocation failure and dangling pointers are outside the model.
  The C \<^verbatim>\<open>int\<close> fields are integers: the program does no arithmetic on them apart from
  counting the history up and down between 0 and 10.
\<close>

type_synonym addr = nat

record Light =
  is_on :: int
  brightness :: int

text \<open>
  \<^verbatim>\<open>struct Command\<close> holds a name and two function pointers. The three concrete structs
  embed it as their first member, and each \<^verbatim>\<open>create_*\<close> function stores the function
  pointers of its own kind, so the constructor of the datatype stands for the pair of
  pointers \<^verbatim>\<open>base.execute\<close>, \<^verbatim>\<open>base.undo\<close>.
\<close>

datatype Command =
    TurnOnCommand (name: string) (light: addr)
  | TurnOffCommand (name: string) (light: addr)
  | BrightnessCommand (name: string) (light: addr) (new_brightness: int) (old_brightness: int)

text \<open>
  Standard output: one constructor for each \<^verbatim>\<open>printf\<close> that the modelled functions
  reach, with the values it formats. The first eleven are those of
  \<^verbatim>\<open>simple_command.c\<close>, the last five those of the command manager below, which prints
  the same line as the remote when there is nothing to undo.
\<close>

datatype msg =
    Light_is_ON int
  | Light_is_OFF
  | Turned_light_ON
  | Undoing_Turned_light_OFF
  | Turned_light_OFF
  | Undoing_Turned_light_ON
  | Set_brightness_to int
  | Undoing_Restored_brightness_to int
  | Pressing_button string
  | Pressing_UNDO_button
  | Nothing_to_undo
  | Executing string
  | Undoing string
  | Redoing string
  | Nothing_to_redo
  | Copy_operation_cannot_be_undone

record store =
  lights :: "addr \<Rightarrow> Light"
  cmds :: "addr \<Rightarrow> Command"
  out :: "msg list"

definition printf :: "msg \<Rightarrow> store \<Rightarrow> store" where
  "printf m s = s\<lparr>out := out s @ [m]\<rparr>"

text \<open>\<^verbatim>\<open>create_light\<close>: \<open>p\<close> is the address \<^verbatim>\<open>malloc\<close> returns, which is also the result.\<close>

definition create_light :: "addr \<Rightarrow> store \<Rightarrow> store" where
  "create_light p s = s\<lparr>lights := (lights s)(p := \<lparr>is_on = 0, brightness = 50\<rparr>)\<rparr>"

definition show_light_status :: "addr \<Rightarrow> store \<Rightarrow> store" where
  "show_light_status l s =
     (if is_on (lights s l) \<noteq> 0 then printf (Light_is_ON (brightness (lights s l))) s
      else printf Light_is_OFF s)"

definition set_is_on :: "addr \<Rightarrow> int \<Rightarrow> store \<Rightarrow> store" where
  "set_is_on l v s = s\<lparr>lights := (lights s)(l := (lights s l)\<lparr>is_on := v\<rparr>)\<rparr>"

definition set_brightness :: "addr \<Rightarrow> int \<Rightarrow> store \<Rightarrow> store" where
  "set_brightness l v s = s\<lparr>lights := (lights s)(l := (lights s l)\<lparr>brightness := v\<rparr>)\<rparr>"

definition turn_on_execute :: "addr \<Rightarrow> store \<Rightarrow> store" where
  "turn_on_execute self s =
     (let l = light (cmds s self)
      in show_light_status l (printf Turned_light_ON (set_is_on l 1 s)))"

definition turn_on_undo :: "addr \<Rightarrow> store \<Rightarrow> store" where
  "turn_on_undo self s =
     (let l = light (cmds s self)
      in show_light_status l (printf Undoing_Turned_light_OFF (set_is_on l 0 s)))"

definition create_turn_on_command :: "addr \<Rightarrow> addr \<Rightarrow> store \<Rightarrow> store" where
  "create_turn_on_command p l s = s\<lparr>cmds := (cmds s)(p := TurnOnCommand ''Turn On'' l)\<rparr>"

definition turn_off_execute :: "addr \<Rightarrow> store \<Rightarrow> store" where
  "turn_off_execute self s =
     (let l = light (cmds s self)
      in show_light_status l (printf Turned_light_OFF (set_is_on l 0 s)))"

definition turn_off_undo :: "addr \<Rightarrow> store \<Rightarrow> store" where
  "turn_off_undo self s =
     (let l = light (cmds s self)
      in show_light_status l (printf Undoing_Turned_light_ON (set_is_on l 1 s)))"

definition create_turn_off_command :: "addr \<Rightarrow> addr \<Rightarrow> store \<Rightarrow> store" where
  "create_turn_off_command p l s = s\<lparr>cmds := (cmds s)(p := TurnOffCommand ''Turn Off'' l)\<rparr>"

text \<open>The assignment \<^verbatim>\<open>cmd->old_brightness = ...\<close> of \<^verbatim>\<open>brightness_execute\<close>.\<close>

fun set_old_brightness :: "int \<Rightarrow> Command \<Rightarrow> Command" where
  "set_old_brightness v (BrightnessCommand n l nb ob) = BrightnessCommand n l nb v"
| "set_old_brightness v c = c"

definition brightness_execute :: "addr \<Rightarrow> store \<Rightarrow> store" where
  "brightness_execute self s =
     (let l = light (cmds s self);
          s1 = s\<lparr>cmds := (cmds s)(self := set_old_brightness (brightness (lights s l)) (cmds s self))\<rparr>;
          s2 = set_brightness l (new_brightness (cmds s1 self)) s1;
          s3 = set_is_on l 1 s2;
          s4 = printf (Set_brightness_to (new_brightness (cmds s3 self))) s3
      in show_light_status l s4)"

definition brightness_undo :: "addr \<Rightarrow> store \<Rightarrow> store" where
  "brightness_undo self s =
     (let l = light (cmds s self);
          s1 = set_brightness l (old_brightness (cmds s self)) s;
          s2 = printf (Undoing_Restored_brightness_to (old_brightness (cmds s1 self))) s1
      in show_light_status l s2)"

text \<open>
  \<^verbatim>\<open>snprintf(name, 50, "Set Brightness %d%%", brightness)\<close>: the decimal digits of the
  argument, cut to the 49 characters the buffer holds before its terminator.
\<close>

fun digits :: "nat \<Rightarrow> string" where
  "digits n = (if n < 10 then [char_of (48 + n)] else digits (n div 10) @ [char_of (48 + n mod 10)])"

declare digits.simps [simp del]

definition show_int :: "int \<Rightarrow> string" where
  "show_int i = (if i < 0 then CHR ''-'' # digits (nat (- i)) else digits (nat i))"

definition create_brightness_command :: "addr \<Rightarrow> addr \<Rightarrow> int \<Rightarrow> store \<Rightarrow> store" where
  "create_brightness_command p l b s =
     s\<lparr>cmds := (cmds s)(p := BrightnessCommand
          (take 49 (''Set Brightness '' @ show_int b @ ''%'')) l b 0)\<rparr>"

text \<open>The indirect calls \<^verbatim>\<open>command->execute(command)\<close> and \<^verbatim>\<open>command->undo(command)\<close>.\<close>

definition execute :: "addr \<Rightarrow> store \<Rightarrow> store" where
  "execute self s =
     (case cmds s self of
        TurnOnCommand _ _ \<Rightarrow> turn_on_execute self s
      | TurnOffCommand _ _ \<Rightarrow> turn_off_execute self s
      | BrightnessCommand _ _ _ _ \<Rightarrow> brightness_execute self s)"

definition undo :: "addr \<Rightarrow> store \<Rightarrow> store" where
  "undo self s =
     (case cmds s self of
        TurnOnCommand _ _ \<Rightarrow> turn_on_undo self s
      | TurnOffCommand _ _ \<Rightarrow> turn_off_undo self s
      | BrightnessCommand _ _ _ _ \<Rightarrow> brightness_undo self s)"

subsection \<open>The remote control\<close>

definition MAX_HISTORY :: int where
  "MAX_HISTORY = 10"

text \<open>
  \<^verbatim>\<open>Command* history[MAX_HISTORY]\<close> is a list of addresses. \<^verbatim>\<open>create_remote\<close> only sets
  the count: the array comes from \<^verbatim>\<open>malloc\<close> with indeterminate contents, which are the
  parameter \<open>junk\<close> (a list of \<open>MAX_HISTORY\<close> addresses).
\<close>

record RemoteControl =
  history :: "addr list"
  history_count :: int

definition create_remote :: "addr list \<Rightarrow> RemoteControl" where
  "create_remote junk = \<lparr>history = junk, history_count = 0\<rparr>"

definition press_button :: "RemoteControl \<Rightarrow> addr \<Rightarrow> store \<Rightarrow> RemoteControl \<times> store" where
  "press_button remote command s =
     (let s1 = printf (Pressing_button (name (cmds s command))) s;
          s2 = execute command s1
      in if history_count remote < MAX_HISTORY
         then (remote\<lparr>history := (history remote)[nat (history_count remote) := command],
                       history_count := history_count remote + 1\<rparr>, s2)
         else (remote, s2))"

definition press_undo :: "RemoteControl \<Rightarrow> store \<Rightarrow> RemoteControl \<times> store" where
  "press_undo remote s =
     (if history_count remote > 0
      then let last_command = history remote ! nat (history_count remote - 1);
               s1 = printf Pressing_UNDO_button s;
               s2 = undo last_command s1
           in (remote\<lparr>history_count := history_count remote - 1\<rparr>, s2)
      else (remote, printf Nothing_to_undo s))"

text \<open>A sequence of button presses and undos, as a caller of the remote makes them.\<close>

datatype op = Press addr | Undo

fun step :: "op \<Rightarrow> RemoteControl \<times> store \<Rightarrow> RemoteControl \<times> store" where
  "step (Press c) (r, s) = press_button r c s"
| "step Undo (r, s) = press_undo r s"

definition run :: "op list \<Rightarrow> RemoteControl \<times> store \<Rightarrow> RemoteControl \<times> store" where
  "run ops rs = fold step ops rs"

text \<open>The recorded history: the first \<open>history_count\<close> slots of the array.\<close>

definition recorded :: "RemoteControl \<Rightarrow> addr list" where
  "recorded r = take (nat (history_count r)) (history r)"

subsection \<open>The objects of the demonstration\<close>

text \<open>
  \<^verbatim>\<open>main\<close> creates one light and four commands on it before it presses any button.
  \<open>demo_store\<close> is the store after these five calls, with the light at address 0 and
  the commands \<^verbatim>\<open>turn_on\<close>, \<^verbatim>\<open>turn_off\<close>, \<^verbatim>\<open>dim\<close> and \<^verbatim>\<open>bright\<close> at addresses
  1 to 4; \<open>blank_store\<close> is the heap before them, and \<open>demo_remote\<close> the remote, its
  array holding null pointers.
\<close>

definition blank_store :: store where
  "blank_store = \<lparr>lights = (\<lambda>_. \<lparr>is_on = 0, brightness = 0\<rparr>),
                  cmds = (\<lambda>_. TurnOnCommand [] 0), out = []\<rparr>"

definition demo_store :: store where
  "demo_store =
     create_brightness_command 4 0 90
       (create_brightness_command 3 0 25
         (create_turn_off_command 2 0
           (create_turn_on_command 1 0
             (create_light 0 blank_store))))"

definition demo_remote :: RemoteControl where
  "demo_remote = create_remote (replicate 10 0)"

section \<open>The command manager with undo and redo\<close>

text \<open>
  The invoker of the full command pattern program, \<^verbatim>\<open>behavioral/command.c\<close> (the program
  headed ``COMMAND PATTERN'', with a text editor as receiver). Its \<^verbatim>\<open>struct Command\<close> holds a
  name and three function pointers, \<^verbatim>\<open>execute\<close>, \<^verbatim>\<open>undo\<close> and \<^verbatim>\<open>destroy\<close>, each
  called with the command itself; the manager calls a command only through these
  pointers. A command object is therefore a record of its name and of what the three
  calls do to the world, the pointer \<^verbatim>\<open>self\<close> being fixed in each. The fields carry the
  prefix \<open>cmd_\<close> because \<open>name\<close>, \<open>execute\<close> and \<open>undo\<close> are taken by the first program.

  The world is what the calls can change: the receiver and the private fields of the
  commands (of any type \<open>'e\<close>), the text written to standard output, and the addresses
  given back to \<^verbatim>\<open>free\<close>.
\<close>

record 'e world =
  editor :: 'e
  stdout :: "msg list"
  freed :: "addr list"

record 'e Cmd =
  cmd_name :: string
  cmd_execute :: "'e world \<Rightarrow> 'e world"
  cmd_undo :: "'e world \<Rightarrow> 'e world"
  cmd_destroy :: "'e world \<Rightarrow> 'e world"

definition wprintf :: "msg \<Rightarrow> 'e world \<Rightarrow> 'e world" where
  "wprintf m w = w\<lparr>stdout := stdout w @ [m]\<rparr>"

text \<open>
  The copy command, the one command of the program that does not read or write the
  character buffers of the editor itself. \<^verbatim>\<open>copy_command_execute\<close> calls the editor through the editor's own
  function pointer \<^verbatim>\<open>copy_text\<close>, which is the parameter \<open>copy_text\<close> here;
  \<^verbatim>\<open>copy_command_undo\<close> only prints; \<^verbatim>\<open>copy_command_destroy\<close> frees a non-null \<open>self\<close>.
\<close>

definition copy_command_execute ::
  "(int \<Rightarrow> int \<Rightarrow> 'e world \<Rightarrow> 'e world) \<Rightarrow> int \<Rightarrow> int \<Rightarrow> 'e world \<Rightarrow> 'e world" where
  "copy_command_execute copy_text start_position len w = copy_text start_position len w"

definition copy_command_undo :: "'e world \<Rightarrow> 'e world" where
  "copy_command_undo w = wprintf Copy_operation_cannot_be_undone w"

definition copy_command_destroy :: "addr \<Rightarrow> 'e world \<Rightarrow> 'e world" where
  "copy_command_destroy self w = (if self \<noteq> 0 then w\<lparr>freed := freed w @ [self]\<rparr> else w)"

text \<open>\<^verbatim>\<open>create_copy_command\<close>: \<open>p\<close> is the address \<^verbatim>\<open>malloc\<close> returns for the new object.\<close>

definition create_copy_command ::
  "addr \<Rightarrow> (int \<Rightarrow> int \<Rightarrow> 'e world \<Rightarrow> 'e world) \<Rightarrow> int \<Rightarrow> int \<Rightarrow> 'e Cmd" where
  "create_copy_command p copy_text start len =
     \<lparr>cmd_name = ''Copy'',
      cmd_execute = copy_command_execute copy_text start len,
      cmd_undo = copy_command_undo,
      cmd_destroy = copy_command_destroy p\<rparr>"

definition MAX_COMMANDS :: int where
  "MAX_COMMANDS = 50"

text \<open>
  \<^verbatim>\<open>Command* command_history[MAX_COMMANDS]\<close> is a list of addresses, indeterminate after
  \<^verbatim>\<open>malloc\<close> (the parameter \<open>junk\<close>); \<open>cs\<close> maps an address to the command object there.
\<close>

record CommandManager =
  command_history :: "addr list"
  current_index :: int
  history_size :: int

definition create_command_manager :: "addr list \<Rightarrow> CommandManager" where
  "create_command_manager junk = \<lparr>command_history = junk, current_index = - 1, history_size = 0\<rparr>"

text \<open>
  \<^verbatim>\<open>execute_command\<close> has no capacity check: with \<open>current_index + 1 = MAX_COMMANDS\<close> it
  writes past the end of the array, which C leaves undefined. The model returns \<open>None\<close>
  whenever the write, or a read of the loop that destroys the entries after the cursor,
  falls outside the array.
\<close>

definition execute_command ::
  "(addr \<Rightarrow> 'e Cmd) \<Rightarrow> CommandManager \<Rightarrow> addr \<Rightarrow> 'e world \<Rightarrow> (CommandManager \<times> 'e world) option" where
  "execute_command cs manager command w =
     (let w1 = wprintf (Executing (cmd_name (cs command))) w;
          w2 = cmd_execute (cs command) w1;
          w3 = fold (\<lambda>i. cmd_destroy (cs (command_history manager ! nat i)))
                 [current_index manager + 1 .. history_size manager - 1] w2;
          i = current_index manager + 1
      in if 0 \<le> i \<and> i < MAX_COMMANDS \<and> history_size manager \<le> MAX_COMMANDS
            \<and> int (length (command_history manager)) = MAX_COMMANDS
         then Some (manager\<lparr>command_history := (command_history manager)[nat i := command],
                            current_index := i,
                            history_size := i + 1\<rparr>, w3)
         else None)"

definition undo_command ::
  "(addr \<Rightarrow> 'e Cmd) \<Rightarrow> CommandManager \<Rightarrow> 'e world \<Rightarrow> CommandManager \<times> 'e world" where
  "undo_command cs manager w =
     (if current_index manager \<ge> 0
      then let command = command_history manager ! nat (current_index manager);
               w1 = wprintf (Undoing (cmd_name (cs command))) w;
               w2 = cmd_undo (cs command) w1
           in (manager\<lparr>current_index := current_index manager - 1\<rparr>, w2)
      else (manager, wprintf Nothing_to_undo w))"

definition redo_command ::
  "(addr \<Rightarrow> 'e Cmd) \<Rightarrow> CommandManager \<Rightarrow> 'e world \<Rightarrow> CommandManager \<times> 'e world" where
  "redo_command cs manager w =
     (if current_index manager + 1 < history_size manager
      then let manager1 = manager\<lparr>current_index := current_index manager + 1\<rparr>;
               command = command_history manager1 ! nat (current_index manager1);
               w1 = wprintf (Redoing (cmd_name (cs command))) w;
               w2 = cmd_execute (cs command) w1
           in (manager1, w2)
      else (manager, wprintf Nothing_to_redo w))"

subsection \<open>Objects for instances\<close>

text \<open>
  The program's own \<^verbatim>\<open>text_editor_copy_text\<close> works on character buffers that are not
  modelled. For instances, \<open>recording_copy_text\<close> is an editor function that records
  the calls it receives; \<open>demo_cs\<close> places at every address \<open>p\<close> a copy command for the
  first \<open>p\<close> characters, and \<open>demo_world\<close> is the world before any call.
\<close>

definition recording_copy_text ::
  "int \<Rightarrow> int \<Rightarrow> (int \<times> int) list world \<Rightarrow> (int \<times> int) list world" where
  "recording_copy_text start len w = w\<lparr>editor := editor w @ [(start, len)]\<rparr>"

definition demo_cs :: "addr \<Rightarrow> (int \<times> int) list Cmd" where
  "demo_cs p = create_copy_command p recording_copy_text 0 (int p)"

definition demo_world :: "(int \<times> int) list world" where
  "demo_world = \<lparr>editor = [], stdout = [], freed = []\<rparr>"

definition demo_manager :: CommandManager where
  "demo_manager = create_command_manager (replicate 50 0)"

section \<open>Properties\<close>

subsection \<open>What the effects write\<close>

lemma lights_printf [simp]: "lights (printf m s) = lights s"
  by (simp add: printf_def)

lemma cmds_printf [simp]: "cmds (printf m s) = cmds s"
  by (simp add: printf_def)

lemma lights_show_light_status [simp]: "lights (show_light_status l s) = lights s"
  by (simp add: show_light_status_def)

lemma cmds_show_light_status [simp]: "cmds (show_light_status l s) = cmds s"
  by (simp add: show_light_status_def)

lemma cmds_set_is_on [simp]: "cmds (set_is_on l v s) = cmds s"
  by (simp add: set_is_on_def)

lemma cmds_set_brightness [simp]: "cmds (set_brightness l v s) = cmds s"
  by (simp add: set_brightness_def)

lemma lights_set_is_on [simp]:
  "lights (set_is_on l v s) = (lights s)(l := (lights s l)\<lparr>is_on := v\<rparr>)"
  by (simp add: set_is_on_def)

lemma lights_set_brightness [simp]:
  "lights (set_brightness l v s) = (lights s)(l := (lights s l)\<lparr>brightness := v\<rparr>)"
  by (simp add: set_brightness_def)

lemma light_set_old_brightness [simp]: "light (set_old_brightness v c) = light c"
  by (cases c) simp_all

lemma new_brightness_set_old_brightness [simp]:
  "new_brightness (set_old_brightness v c) = new_brightness c"
  by (cases c) simp_all

lemma lights_turn_on_execute:
  "lights (turn_on_execute c s) =
   (lights s)(light (cmds s c) := (lights s (light (cmds s c)))\<lparr>is_on := 1\<rparr>)"
  by (simp add: turn_on_execute_def Let_def)

lemma lights_turn_on_undo:
  "lights (turn_on_undo c s) =
   (lights s)(light (cmds s c) := (lights s (light (cmds s c)))\<lparr>is_on := 0\<rparr>)"
  by (simp add: turn_on_undo_def Let_def)

lemma lights_turn_off_execute:
  "lights (turn_off_execute c s) =
   (lights s)(light (cmds s c) := (lights s (light (cmds s c)))\<lparr>is_on := 0\<rparr>)"
  by (simp add: turn_off_execute_def Let_def)

lemma lights_turn_off_undo:
  "lights (turn_off_undo c s) =
   (lights s)(light (cmds s c) := (lights s (light (cmds s c)))\<lparr>is_on := 1\<rparr>)"
  by (simp add: turn_off_undo_def Let_def)

lemma lights_brightness_execute:
  "lights (brightness_execute c s) =
   (lights s)(light (cmds s c) :=
      (lights s (light (cmds s c)))\<lparr>brightness := new_brightness (cmds s c), is_on := 1\<rparr>)"
  by (simp add: brightness_execute_def Let_def)

lemma lights_brightness_undo:
  "lights (brightness_undo c s) =
   (lights s)(light (cmds s c) := (lights s (light (cmds s c)))\<lparr>brightness := old_brightness (cmds s c)\<rparr>)"
  by (simp add: brightness_undo_def Let_def)

lemma cmds_turn_on_execute [simp]: "cmds (turn_on_execute c s) = cmds s"
  by (simp add: turn_on_execute_def Let_def)

lemma cmds_turn_on_undo [simp]: "cmds (turn_on_undo c s) = cmds s"
  by (simp add: turn_on_undo_def Let_def)

lemma cmds_turn_off_execute [simp]: "cmds (turn_off_execute c s) = cmds s"
  by (simp add: turn_off_execute_def Let_def)

lemma cmds_turn_off_undo [simp]: "cmds (turn_off_undo c s) = cmds s"
  by (simp add: turn_off_undo_def Let_def)

lemma cmds_brightness_execute:
  "cmds (brightness_execute c s) =
   (cmds s)(c := set_old_brightness (brightness (lights s (light (cmds s c)))) (cmds s c))"
  by (simp add: brightness_execute_def Let_def)

lemma cmds_brightness_undo [simp]: "cmds (brightness_undo c s) = cmds s"
  by (simp add: brightness_undo_def Let_def)

lemma press_button_store:
  "snd (press_button r c s) = execute c (printf (Pressing_button (name (cmds s c))) s)"
  by (simp add: press_button_def Let_def)

lemma press_button_full:
  "MAX_HISTORY \<le> history_count r \<Longrightarrow> fst (press_button r c s) = r"
  by (simp add: press_button_def Let_def)

lemma press_button_room:
  "history_count r < MAX_HISTORY \<Longrightarrow>
   fst (press_button r c s) =
     r\<lparr>history := (history r)[nat (history_count r) := c], history_count := history_count r + 1\<rparr>"
  by (simp add: press_button_def Let_def)

lemma recorded_press_button_room:
  assumes "0 \<le> history_count r" "history_count r < MAX_HISTORY"
    and "int (length (history r)) = MAX_HISTORY"
  shows "recorded (fst (press_button r c s)) = recorded r @ [c]"
proof -
  have "nat (history_count r) < length (history r)"
    using assms by linarith
  then have "take (Suc (nat (history_count r))) ((history r)[nat (history_count r) := c])
             = take (nat (history_count r)) (history r) @ [c]"
    by (simp add: take_Suc_conv_app_nth)
  moreover have "nat (history_count r + 1) = Suc (nat (history_count r))"
    using assms(1) by simp
  ultimately show ?thesis
    using assms(2) by (simp add: recorded_def press_button_room)
qed

subsection \<open>The count of the remote\<close>

lemma step_count_bounds:
  "0 \<le> history_count (fst rs) \<and> history_count (fst rs) \<le> MAX_HISTORY \<Longrightarrow>
   0 \<le> history_count (fst (step x rs)) \<and> history_count (fst (step x rs)) \<le> MAX_HISTORY"
  by (cases x; cases rs) (auto simp: press_button_def press_undo_def Let_def MAX_HISTORY_def)

lemma run_count_bounds:
  "0 \<le> history_count (fst rs) \<and> history_count (fst rs) \<le> MAX_HISTORY \<Longrightarrow>
   0 \<le> history_count (fst (run ops rs)) \<and> history_count (fst (run ops rs)) \<le> MAX_HISTORY"
  unfolding run_def
proof (induction ops arbitrary: rs)
  case Nil
  then show ?case by simp
next
  case (Cons x ops)
  from Cons.prems have "0 \<le> history_count (fst (step x rs)) \<and> history_count (fst (step x rs)) \<le> MAX_HISTORY"
    by (rule step_count_bounds)
  then show ?case using Cons.IH by simp
qed

lemma press_undo_empty:
  "history_count r \<le> 0 \<Longrightarrow> press_undo r s = (r, s\<lparr>out := out s @ [Nothing_to_undo]\<rparr>)"
  by (simp add: press_undo_def printf_def)

lemma press_undo_nonempty:
  "0 < history_count r \<Longrightarrow>
   press_undo r s =
     (r\<lparr>history_count := history_count r - 1\<rparr>,
      undo (history r ! nat (history_count r - 1)) (printf Pressing_UNDO_button s))"
  by (simp add: press_undo_def Let_def)

lemma redo_command_at_tip:
  "history_size m \<le> current_index m + 1 \<Longrightarrow>
   redo_command cs m w = (m, w\<lparr>stdout := stdout w @ [Nothing_to_redo]\<rparr>)"
  by (simp add: redo_command_def wprintf_def)

lemma redo_command_before_tip:
  "current_index m + 1 < history_size m \<Longrightarrow>
   redo_command cs m w =
     (m\<lparr>current_index := current_index m + 1\<rparr>,
      cmd_execute (cs (command_history m ! nat (current_index m + 1)))
        (wprintf (Redoing (cmd_name (cs (command_history m ! nat (current_index m + 1))))) w))"
  by (simp add: redo_command_def Let_def)

subsection \<open>A press followed by an undo\<close>

lemma Light_is_on_same: "is_on L = v \<Longrightarrow> L\<lparr>is_on := v\<rparr> = L"
  by (cases L) simp

lemma lights_undo_execute:
  assumes "is_on (lights s (light (cmds s c))) = (case cmds s c of TurnOnCommand _ _ \<Rightarrow> 0 | _ \<Rightarrow> 1)"
  shows "lights (undo c (printf m2 (execute c (printf m1 s)))) = lights s"
proof (cases "cmds s c")
  case (TurnOnCommand n l)
  then have "is_on (lights s l) = 0" using assms by simp
  then show ?thesis using TurnOnCommand
    by (simp add: execute_def undo_def lights_turn_on_execute lights_turn_on_undo Light_is_on_same)
next
  case (TurnOffCommand n l)
  then have "is_on (lights s l) = 1" using assms by simp
  then show ?thesis using TurnOffCommand
    by (simp add: execute_def undo_def lights_turn_off_execute lights_turn_off_undo Light_is_on_same)
next
  case (BrightnessCommand n l nb ob)
  then have on: "is_on (lights s l) = 1" using assms by simp
  have "(lights s l)\<lparr>brightness := brightness (lights s l), is_on := 1\<rparr> = lights s l"
    using on by (cases "lights s l") simp
  then show ?thesis using BrightnessCommand
    by (simp add: execute_def undo_def lights_brightness_execute lights_brightness_undo
        cmds_brightness_execute)
qed

lemma run_press_undo:
  "run [Press c, Undo] (r, s) = press_undo (fst (press_button r c s)) (snd (press_button r c s))"
  by (cases "press_button r c s") (simp add: run_def)

lemma recorded_after_undo:
  assumes "0 \<le> history_count r" "history_count r < MAX_HISTORY"
    and "int (length (history r)) = MAX_HISTORY"
  shows "recorded (fst (press_undo (fst (press_button r c s)) s')) = recorded r"
    and "history_count (fst (press_undo (fst (press_button r c s)) s')) = history_count r"
    and "snd (press_undo (fst (press_button r c s)) s') = undo c (printf Pressing_UNDO_button s')"
proof -
  have len: "nat (history_count r) < length (history r)"
    using assms by linarith
  have r1: "fst (press_button r c s)
      = r\<lparr>history := (history r)[nat (history_count r) := c], history_count := history_count r + 1\<rparr>"
    using assms(2) by (rule press_button_room)
  have u: "press_undo (fst (press_button r c s)) s'
      = (r\<lparr>history := (history r)[nat (history_count r) := c]\<rparr>,
         undo c (printf Pressing_UNDO_button s'))"
    using len assms(1) by (simp add: r1 press_undo_def Let_def)
  show "recorded (fst (press_undo (fst (press_button r c s)) s')) = recorded r"
    by (simp add: u recorded_def)
  show "history_count (fst (press_undo (fst (press_button r c s)) s')) = history_count r"
    by (simp add: u)
  show "snd (press_undo (fst (press_button r c s)) s') = undo c (printf Pressing_UNDO_button s')"
    by (simp add: u)
qed

subsection \<open>Only the recorded history is ever read\<close>

lemma fst_press_undo:
  "fst (press_undo r s) = (if 0 < history_count r then r\<lparr>history_count := history_count r - 1\<rparr> else r)"
  by (simp add: press_undo_def Let_def)

lemma fst_press_button:
  "fst (press_button r c s) =
     (if history_count r < MAX_HISTORY
      then r\<lparr>history := (history r)[nat (history_count r) := c], history_count := history_count r + 1\<rparr>
      else r)"
  by (simp add: press_button_def Let_def)

lemma fst_step_Undo: "fst (step Undo rs) = fst (press_undo (fst rs) (snd rs))"
  by (cases rs) simp

lemma fst_step_Press: "fst (step (Press c) rs) = fst (press_button (fst rs) c (snd rs))"
  by (cases rs) simp

lemma snd_step_Undo: "snd (step Undo rs) = snd (press_undo (fst rs) (snd rs))"
  by (cases rs) simp

lemma snd_step_Press: "snd (step (Press c) rs) = snd (press_button (fst rs) c (snd rs))"
  by (cases rs) simp

lemma snd_press_undo:
  "snd (press_undo r s) =
     (if 0 < history_count r
      then undo (history r ! nat (history_count r - 1)) (printf Pressing_UNDO_button s)
      else printf Nothing_to_undo s)"
  by (simp add: press_undo_def Let_def)

lemma step_recorded_only:
  assumes "int (length (history r)) = MAX_HISTORY" "int (length (history r')) = MAX_HISTORY"
    and "0 \<le> history_count r" "history_count r \<le> MAX_HISTORY"
    and "history_count r' = history_count r" "recorded r' = recorded r"
  shows "snd (step x (r', s)) = snd (step x (r, s))
       \<and> int (length (history (fst (step x (r, s))))) = MAX_HISTORY
       \<and> int (length (history (fst (step x (r', s))))) = MAX_HISTORY
       \<and> 0 \<le> history_count (fst (step x (r, s)))
       \<and> history_count (fst (step x (r, s))) \<le> MAX_HISTORY
       \<and> history_count (fst (step x (r', s))) = history_count (fst (step x (r, s)))
       \<and> recorded (fst (step x (r', s))) = recorded (fst (step x (r, s)))"
proof (cases x)
  case (Press c)
  show ?thesis
  proof (cases "history_count r < MAX_HISTORY")
    case True
    have "recorded (fst (press_button r c s)) = recorded r @ [c]"
      using assms True by (intro recorded_press_button_room) simp_all
    moreover have "recorded (fst (press_button r' c s)) = recorded r' @ [c]"
      using assms True by (intro recorded_press_button_room) simp_all
    ultimately show ?thesis
      using assms True Press by (simp add: press_button_store fst_press_button)
  next
    case False
    then show ?thesis
      using assms Press by (simp add: press_button_store fst_press_button)
  qed
next
  case Undo
  show ?thesis
  proof (cases "0 < history_count r")
    case True
    have lt: "nat (history_count r - 1) < nat (history_count r)"
      using True by simp
    have "history r ! nat (history_count r - 1) = recorded r ! nat (history_count r - 1)"
      using lt by (simp add: recorded_def)
    moreover have "history r' ! nat (history_count r - 1) = recorded r' ! nat (history_count r - 1)"
      using lt assms(5) by (simp add: recorded_def)
    ultimately have same: "history r' ! nat (history_count r - 1) = history r ! nat (history_count r - 1)"
      using assms(6) by simp
    have "take (nat (history_count r - 1)) (history r') = take (nat (history_count r - 1)) (recorded r')"
      using lt assms(5) by (simp add: recorded_def min_def)
    moreover have "take (nat (history_count r - 1)) (history r) = take (nat (history_count r - 1)) (recorded r)"
      using lt by (simp add: recorded_def min_def)
    ultimately have "take (nat (history_count r - 1)) (history r') = take (nat (history_count r - 1)) (history r)"
      using assms(6) by simp
    then show ?thesis
      using assms True Undo same by (simp add: snd_press_undo fst_press_undo recorded_def)
  next
    case False
    then show ?thesis
      using assms Undo by (simp add: snd_press_undo fst_press_undo)
  qed
qed

lemma run_recorded_only:
  assumes "int (length (history r)) = MAX_HISTORY" "int (length (history r')) = MAX_HISTORY"
    and "0 \<le> history_count r" "history_count r \<le> MAX_HISTORY"
    and "history_count r' = history_count r" "recorded r' = recorded r"
  shows "snd (run ops (r', s)) = snd (run ops (r, s))"
  using assms
proof (induction ops arbitrary: r r' s)
  case Nil
  then show ?case by (simp add: run_def)
next
  case (Cons x ops)
  note st = step_recorded_only [OF Cons.prems, of x s]
  obtain r1 s1 where a: "step x (r, s) = (r1, s1)" by (cases "step x (r, s)")
  obtain r1' s1' where b: "step x (r', s) = (r1', s1')" by (cases "step x (r', s)")
  from st a b have s: "s1' = s1" by simp
  have "snd (run ops (r1', s1)) = snd (run ops (r1, s1))"
    using st a b by (intro Cons.IH) simp_all
  then show ?case
    using a b s by (simp add: run_def)
qed

subsection \<open>The manager after each operation\<close>

lemma fst_undo_command:
  "fst (undo_command cs m w) =
     (if 0 \<le> current_index m then m\<lparr>current_index := current_index m - 1\<rparr> else m)"
  by (simp add: undo_command_def Let_def)

lemma execute_command_Some:
  assumes "execute_command cs m c w = Some (m2, w2)"
  shows "m2 = m\<lparr>command_history := (command_history m)[nat (current_index m + 1) := c],
                 current_index := current_index m + 1,
                 history_size := current_index m + 2\<rparr>"
    and "w2 = fold (\<lambda>i. cmd_destroy (cs (command_history m ! nat i)))
                [current_index m + 1 .. history_size m - 1]
                (cmd_execute (cs c) (wprintf (Executing (cmd_name (cs c))) w))"
  using assms by (auto simp: execute_command_def Let_def split: if_splits)

subsection \<open>Execute after two undos\<close>

lemma remote_truncation:
  assumes "int (length (history r)) = MAX_HISTORY" and "history_count r = 3"
    and "recorded r = [c1, c2, c3]"
  shows "history_count (fst (run [Undo, Undo] (r, s))) = 1
       \<and> recorded (fst (run [Undo, Undo] (r, s))) = [c1]
       \<and> history_count (fst (run [Undo, Undo, Press c4] (r, s))) = 2
       \<and> recorded (fst (run [Undo, Undo, Press c4] (r, s))) = [c1, c4]
       \<and> history (fst (run [Undo, Undo, Press c4] (r, s)))
            ! nat (history_count (fst (run [Undo, Undo, Press c4] (r, s))) - 1) = c4
       \<and> (\<forall>r' ops s'. int (length (history r')) = MAX_HISTORY \<and> history_count r' = 2
              \<and> recorded r' = [c1, c4] \<longrightarrow>
            snd (run ops (fst (run [Undo, Undo, Press c4] (r, s)), s')) = snd (run ops (r', s')))"
proof -
  have t3: "take 3 (history r) = [c1, c2, c3]"
    using assms(2,3) by (simp add: recorded_def)
  have xs: "history r = c1 # c2 # c3 # drop 3 (history r)"
    using append_take_drop_id [of 3 "history r"] unfolding t3 by simp
  have u2: "fst (run [Undo, Undo] (r, s)) = r\<lparr>history_count := 1\<rparr>"
    using assms(2) by (simp add: run_def fst_step_Undo fst_press_undo)
  have fin: "fst (run [Undo, Undo, Press c4] (r, s))
      = r\<lparr>history := (history r)[1 := c4], history_count := 2\<rparr>"
    using assms(2)
    by (simp add: run_def fst_step_Undo fst_step_Press fst_press_undo fst_press_button MAX_HISTORY_def)
  have take1: "take (Suc 0) (history r) = [c1]"
    by (subst xs) simp
  have take2: "take 2 ((history r)[Suc 0 := c4]) = [c1, c4]"
    by (subst xs) (simp add: numeral_2_eq_2)
  have slot: "(history r)[Suc 0 := c4] ! Suc 0 = c4"
    by (subst xs) simp
  have rec1: "recorded (r\<lparr>history_count := 1\<rparr>) = [c1]"
    by (simp add: recorded_def take1)
  have rec2: "recorded (r\<lparr>history := (history r)[1 := c4], history_count := 2\<rparr>) = [c1, c4]"
    by (simp add: recorded_def take2)
  have later: "snd (run ops (r\<lparr>history := (history r)[1 := c4], history_count := 2\<rparr>, s'))
      = snd (run ops (r', s'))"
    if "int (length (history r')) = MAX_HISTORY" "history_count r' = 2" "recorded r' = [c1, c4]"
    for r' ops s'
    using that assms(1) rec2
    by (intro run_recorded_only) (simp_all add: MAX_HISTORY_def)
  from later have "\<forall>r' ops s'. int (length (history r')) = MAX_HISTORY \<and> history_count r' = 2
              \<and> recorded r' = [c1, c4] \<longrightarrow>
            snd (run ops (r\<lparr>history := (history r)[1 := c4], history_count := 2\<rparr>, s')) = snd (run ops (r', s'))"
    by blast
  with rec1 rec2 slot show ?thesis
    by (simp add: u2 fin)
qed

lemma manager_truncation:
  assumes "int (length (command_history m)) = MAX_COMMANDS"
    and "current_index m = 2" and "history_size m = 3"
    and "take 3 (command_history m) = [c1, c2, c3]"
  shows "fst (undo_command cs (fst (undo_command cs m w)) w1) = m\<lparr>current_index := 0\<rparr>"
    and "execute_command cs (m\<lparr>current_index := 0\<rparr>) c4 w2 =
           Some (m\<lparr>command_history := (command_history m)[1 := c4], current_index := 1, history_size := 2\<rparr>,
                 cmd_destroy (cs c3) (cmd_destroy (cs c2)
                   (cmd_execute (cs c4) (wprintf (Executing (cmd_name (cs c4))) w2))))"
    and "take 2 ((command_history m)[1 := c4]) = [c1, c4]"
    and "redo_command cs
           (m\<lparr>command_history := (command_history m)[1 := c4], current_index := 1, history_size := 2\<rparr>) w3
         = (m\<lparr>command_history := (command_history m)[1 := c4], current_index := 1, history_size := 2\<rparr>,
            w3\<lparr>stdout := stdout w3 @ [Nothing_to_redo]\<rparr>)"
proof -
  have xs: "command_history m = c1 # c2 # c3 # drop 3 (command_history m)"
    using append_take_drop_id [of 3 "command_history m"] unfolding assms(4) by simp
  show "fst (undo_command cs (fst (undo_command cs m w)) w1) = m\<lparr>current_index := 0\<rparr>"
    using assms(2) by (simp add: fst_undo_command)
  have reads: "command_history m ! Suc 0 = c2" "command_history m ! 2 = c3"
    by (subst xs, simp)+
  have up: "[1 .. 2 :: int] = [1, 2]"
    by (simp add: upto.simps)
  show "execute_command cs (m\<lparr>current_index := 0\<rparr>) c4 w2 =
           Some (m\<lparr>command_history := (command_history m)[1 := c4], current_index := 1, history_size := 2\<rparr>,
                 cmd_destroy (cs c3) (cmd_destroy (cs c2)
                   (cmd_execute (cs c4) (wprintf (Executing (cmd_name (cs c4))) w2))))"
    using assms(1,3) reads by (simp add: execute_command_def Let_def MAX_COMMANDS_def up)
  show "take 2 ((command_history m)[1 := c4]) = [c1, c4]"
    by (subst xs) (simp add: numeral_2_eq_2)
  show "redo_command cs
           (m\<lparr>command_history := (command_history m)[1 := c4], current_index := 1, history_size := 2\<rparr>) w3
         = (m\<lparr>command_history := (command_history m)[1 := c4], current_index := 1, history_size := 2\<rparr>,
            w3\<lparr>stdout := stdout w3 @ [Nothing_to_redo]\<rparr>)"
    by (simp add: redo_command_at_tip)
qed

subsection \<open>The claims\<close>

text \<open>
  C1. Truncation on branch. From a remote whose recorded history is \<open>[c1, c2, c3]\<close>
  (count 3, cursor at \<open>c3\<close>), two calls of \<^verbatim>\<open>press_undo\<close> bring the count to 1 (cursor
  at \<open>c1\<close>); \<^verbatim>\<open>press_button\<close> on \<open>c4\<close> then stores \<open>c4\<close> at index 1 and sets the count to
  2, so that the recorded history is exactly \<open>[c1, c4]\<close> with the cursor at \<open>c4\<close>. The
  entries \<open>c2\<close> and \<open>c3\<close> cannot be reached again: whatever sequence of presses and
  undos follows, the store it produces is the one produced from any other remote whose
  recorded history is \<open>[c1, c4]\<close>.

  The command manager, which has a redo, does the same from a history \<open>[c1, c2, c3]\<close>
  with \<open>current_index = 2\<close>: two calls of \<^verbatim>\<open>undo_command\<close> bring the cursor to 0,
  \<^verbatim>\<open>execute_command\<close> on \<open>c4\<close> runs it, destroys \<open>c2\<close> and \<open>c3\<close>, stores \<open>c4\<close> at index 1
  and sets \<open>history_size\<close> to 2, so that the history is \<open>[c1, c4]\<close> with the cursor at
  \<open>c4\<close>, and \<^verbatim>\<open>redo_command\<close> then finds nothing to redo.
\<close>

theorem truncation_on_branch:
  assumes "int (length (history r)) = MAX_HISTORY" and "history_count r = 3"
    and "recorded r = [c1, c2, c3]"
    and "int (length (command_history m)) = MAX_COMMANDS"
    and "current_index m = 2" and "history_size m = 3"
    and "take 3 (command_history m) = [c1, c2, c3]"
  shows "history_count (fst (run [Undo, Undo] (r, s))) = 1
       \<and> recorded (fst (run [Undo, Undo] (r, s))) = [c1]
       \<and> history_count (fst (run [Undo, Undo, Press c4] (r, s))) = 2
       \<and> recorded (fst (run [Undo, Undo, Press c4] (r, s))) = [c1, c4]
       \<and> history (fst (run [Undo, Undo, Press c4] (r, s)))
            ! nat (history_count (fst (run [Undo, Undo, Press c4] (r, s))) - 1) = c4
       \<and> (\<forall>r' ops s'. int (length (history r')) = MAX_HISTORY \<and> history_count r' = 2
              \<and> recorded r' = [c1, c4] \<longrightarrow>
            snd (run ops (fst (run [Undo, Undo, Press c4] (r, s)), s')) = snd (run ops (r', s')))
       \<and> fst (undo_command cs (fst (undo_command cs m w)) w1) = m\<lparr>current_index := 0\<rparr>
       \<and> execute_command cs (m\<lparr>current_index := 0\<rparr>) c4 w2 =
           Some (m\<lparr>command_history := (command_history m)[1 := c4], current_index := 1, history_size := 2\<rparr>,
                 cmd_destroy (cs c3) (cmd_destroy (cs c2)
                   (cmd_execute (cs c4) (wprintf (Executing (cmd_name (cs c4))) w2))))
       \<and> take 2 ((command_history m)[1 := c4]) = [c1, c4]
       \<and> (command_history m)[1 := c4] ! 1 = c4
       \<and> redo_command cs
           (m\<lparr>command_history := (command_history m)[1 := c4], current_index := 1, history_size := 2\<rparr>) w3
         = (m\<lparr>command_history := (command_history m)[1 := c4], current_index := 1, history_size := 2\<rparr>,
            w3\<lparr>stdout := stdout w3 @ [Nothing_to_redo]\<rparr>)"
proof -
  have "1 < length (command_history m)"
    using assms(4) by (simp add: MAX_COMMANDS_def)
  then have "(command_history m)[1 := c4] ! 1 = c4"
    by simp
  with remote_truncation [OF assms(1-3)] manager_truncation [OF assms(4-7)]
  show ?thesis by blast
qed

theorem truncation_on_branch_witness:
  "int (length (history (fst (run [Press 1, Press 4, Press 3] (demo_remote, demo_store))))) = MAX_HISTORY
   \<and> history_count (fst (run [Press 1, Press 4, Press 3] (demo_remote, demo_store))) = 3
   \<and> recorded (fst (run [Press 1, Press 4, Press 3] (demo_remote, demo_store))) = [1, 4, 3]
   \<and> int (length (command_history
         \<lparr>command_history = 1 # 4 # 3 # replicate 47 0, current_index = 2, history_size = 3\<rparr>)) = MAX_COMMANDS
   \<and> current_index \<lparr>command_history = 1 # 4 # 3 # replicate 47 0, current_index = 2, history_size = 3\<rparr> = 2
   \<and> history_size \<lparr>command_history = 1 # 4 # 3 # replicate 47 0, current_index = 2, history_size = 3\<rparr> = 3
   \<and> take 3 (command_history
         \<lparr>command_history = 1 # 4 # 3 # replicate 47 0, current_index = 2, history_size = 3\<rparr>) = [1, 4, 3]
   \<and> recorded (fst (run [Undo, Undo, Press 2]
        (fst (run [Press 1, Press 4, Press 3] (demo_remote, demo_store)),
         snd (run [Press 1, Press 4, Press 3] (demo_remote, demo_store))))) = [1, 2]
   \<and> history_count (fst (run [Undo, Undo, Press 2]
        (fst (run [Press 1, Press 4, Press 3] (demo_remote, demo_store)),
         snd (run [Press 1, Press 4, Press 3] (demo_remote, demo_store))))) = 2
   \<and> take 2 ((command_history
         \<lparr>command_history = 1 # 4 # 3 # replicate 47 0, current_index = 2, history_size = 3\<rparr>)[1 := 2])
       = [1, 2]"
proof -
  have h1: "int (length (history (fst (run [Press 1, Press 4, Press 3] (demo_remote, demo_store))))) = MAX_HISTORY"
    by code_simp
  have h2: "history_count (fst (run [Press 1, Press 4, Press 3] (demo_remote, demo_store))) = 3"
    by code_simp
  have h3: "recorded (fst (run [Press 1, Press 4, Press 3] (demo_remote, demo_store))) = [1, 4, 3]"
    by code_simp
  have h4: "int (length (command_history
         \<lparr>command_history = 1 # 4 # 3 # replicate 47 0, current_index = 2, history_size = 3\<rparr>)) = MAX_COMMANDS"
    by (simp add: MAX_COMMANDS_def)
  have h5: "current_index \<lparr>command_history = 1 # 4 # 3 # replicate 47 0, current_index = 2, history_size = 3\<rparr> = 2"
    by simp
  have h6: "history_size \<lparr>command_history = 1 # 4 # 3 # replicate 47 0, current_index = 2, history_size = 3\<rparr> = 3"
    by simp
  have h7: "take 3 (command_history
         \<lparr>command_history = 1 # 4 # 3 # replicate 47 0, current_index = 2, history_size = 3\<rparr>) = [1, 4, 3]"
    by (simp add: numeral_3_eq_3)
  from truncation_on_branch [OF h1 h2 h3 h4 h5 h6 h7, where ?c4.0 = 2] h1 h2 h3 h4 h5 h6 h7
  show ?thesis by blast
qed

text \<open>
  C2, as amended. Undo inverts execute where the command changes what its undo writes
  back: for every store and every remote with room in its history
  (\<open>0 \<le> history_count < MAX_HISTORY\<close>, in an array of \<open>MAX_HISTORY\<close> slots),
  \<^verbatim>\<open>press_button\<close> followed by \<^verbatim>\<open>press_undo\<close> leaves every light as it was, \<open>is_on\<close> and
  \<open>brightness\<close>, and the recorded history and count as they were, provided the light of
  the command was off (\<open>is_on = 0\<close>) for a turn-on command and on (\<open>is_on = 1\<close>) for a
  turn-off or brightness command.
\<close>

theorem undo_inverts_execute:
  assumes "0 \<le> history_count r" and "history_count r < MAX_HISTORY"
    and "int (length (history r)) = MAX_HISTORY"
    and "is_on (lights s (light (cmds s c))) = (case cmds s c of TurnOnCommand _ _ \<Rightarrow> 0 | _ \<Rightarrow> 1)"
  shows "lights (snd (run [Press c, Undo] (r, s))) = lights s
       \<and> history_count (fst (run [Press c, Undo] (r, s))) = history_count r
       \<and> recorded (fst (run [Press c, Undo] (r, s))) = recorded r"
proof -
  have "snd (run [Press c, Undo] (r, s))
      = undo c (printf Pressing_UNDO_button (execute c (printf (Pressing_button (name (cmds s c))) s)))"
    by (simp only: run_press_undo recorded_after_undo(3) [OF assms(1-3)] press_button_store)
  then have "lights (snd (run [Press c, Undo] (r, s))) = lights s"
    by (simp only: lights_undo_execute [OF assms(4)])
  then show ?thesis
    by (simp only: run_press_undo recorded_after_undo(1,2) [OF assms(1-3)])
qed

theorem undo_inverts_execute_witness:
  "0 \<le> history_count demo_remote \<and> history_count demo_remote < MAX_HISTORY
   \<and> int (length (history demo_remote)) = MAX_HISTORY
   \<and> is_on (lights demo_store (light (cmds demo_store 1)))
       = (case cmds demo_store 1 of TurnOnCommand _ _ \<Rightarrow> 0 | _ \<Rightarrow> 1)
   \<and> lights (snd (run [Press 1, Undo] (demo_remote, demo_store))) = lights demo_store
   \<and> history_count (fst (run [Press 1, Undo] (demo_remote, demo_store))) = history_count demo_remote
   \<and> recorded (fst (run [Press 1, Undo] (demo_remote, demo_store))) = recorded demo_remote"
proof -
  have h1: "0 \<le> history_count demo_remote" by code_simp
  have h2: "history_count demo_remote < MAX_HISTORY" by code_simp
  have h3: "int (length (history demo_remote)) = MAX_HISTORY" by code_simp
  have h4: "is_on (lights demo_store (light (cmds demo_store 1)))
       = (case cmds demo_store 1 of TurnOnCommand _ _ \<Rightarrow> 0 | _ \<Rightarrow> 1)"
    by code_simp
  from undo_inverts_execute [OF h1 h2 h3 h4] h1 h2 h3 h4 show ?thesis by blast
qed

text \<open>
  C2 as stated fails for the program's own turn-on command: in the demonstration, once
  \<^verbatim>\<open>turn_on\<close> has been pressed the light is on; pressing \<^verbatim>\<open>turn_on\<close> again and then undo
  leaves it off, while it was on immediately before that execute.
\<close>

theorem undo_inverts_execute_counterexample:
  "is_on (lights (snd (run [Press 1] (demo_remote, demo_store))) 0) = 1
   \<and> is_on (lights (snd (run [Press 1, Undo] (run [Press 1] (demo_remote, demo_store)))) 0) = 0"
  by code_simp

text \<open>
  C3, as amended. The history never exceeds its capacity: along every run from
  \<^verbatim>\<open>create_remote\<close> the count stays at most \<open>MAX_HISTORY = 10\<close>, and so does the length
  of the recorded history. When \<^verbatim>\<open>press_button\<close> is called while the history is full,
  nothing is evicted and nothing shifts: every slot of the array and the count are as
  before, the new command is executed but not recorded.
\<close>

theorem capacity_without_eviction:
  "MAX_HISTORY = 10
   \<and> history_count (fst (run ops (create_remote junk, s))) \<le> MAX_HISTORY
   \<and> length (recorded (fst (run ops (create_remote junk, s)))) \<le> nat MAX_HISTORY
   \<and> (history_count r = MAX_HISTORY \<longrightarrow>
        history (fst (press_button r c s')) = history r
        \<and> history_count (fst (press_button r c s')) = history_count r
        \<and> recorded (fst (press_button r c s')) = recorded r
        \<and> snd (press_button r c s') = execute c (printf (Pressing_button (name (cmds s' c))) s'))"
proof -
  have "0 \<le> history_count (fst (create_remote junk, s)) \<and>
        history_count (fst (create_remote junk, s)) \<le> MAX_HISTORY"
    by (simp add: create_remote_def MAX_HISTORY_def)
  from run_count_bounds [OF this, of ops]
  have bound: "history_count (fst (run ops (create_remote junk, s))) \<le> MAX_HISTORY"
    by simp
  then have len: "length (recorded (fst (run ops (create_remote junk, s)))) \<le> nat MAX_HISTORY"
    by (simp add: recorded_def)
  have full: "fst (press_button r c s') = r" if "history_count r = MAX_HISTORY"
    using that by (simp add: press_button_full)
  from bound len full show ?thesis
    by (simp add: MAX_HISTORY_def press_button_store)
qed

theorem capacity_without_eviction_witness:
  "history_count (fst (run (replicate 10 (Press 3)) (demo_remote, demo_store))) = MAX_HISTORY
   \<and> history (fst (press_button (fst (run (replicate 10 (Press 3)) (demo_remote, demo_store))) 4 demo_store))
       = history (fst (run (replicate 10 (Press 3)) (demo_remote, demo_store)))
   \<and> history_count (fst (press_button (fst (run (replicate 10 (Press 3)) (demo_remote, demo_store))) 4 demo_store))
       = history_count (fst (run (replicate 10 (Press 3)) (demo_remote, demo_store)))"
proof -
  have h: "history_count (fst (run (replicate 10 (Press 3)) (demo_remote, demo_store))) = MAX_HISTORY"
    by code_simp
  from capacity_without_eviction
    [of _ _ _ "fst (run (replicate 10 (Press 3)) (demo_remote, demo_store))" 4 demo_store] h
  show ?thesis by blast
qed

text \<open>
  C3 as stated fails: in the demonstration, after the ten presses
  \<^verbatim>\<open>turn_on, bright, dim, turn_off, turn_on, bright, dim, turn_off, turn_on, bright\<close>
  an eleventh press, of \<^verbatim>\<open>dim\<close>, leaves the oldest entry in slot 0 and the tenth press
  in slot 9; the history is not the one shifted down by one with \<^verbatim>\<open>dim\<close> at its end.
\<close>

theorem eviction_counterexample:
  "recorded (fst (run [Press 1, Press 4, Press 3, Press 2, Press 1, Press 4, Press 3, Press 2,
       Press 1, Press 4, Press 3] (demo_remote, demo_store)))
     = [1, 4, 3, 2, 1, 4, 3, 2, 1, 4]
   \<and> recorded (fst (run [Press 1, Press 4, Press 3, Press 2, Press 1, Press 4, Press 3, Press 2,
       Press 1, Press 4, Press 3] (demo_remote, demo_store)))
     \<noteq> [4, 3, 2, 1, 4, 3, 2, 1, 4, 3]
   \<and> brightness (lights (snd (run [Press 1, Press 4, Press 3, Press 2, Press 1, Press 4, Press 3,
       Press 2, Press 1, Press 4, Press 3] (demo_remote, demo_store))) 0) = 25"
  by code_simp

text \<open>
  C4, as amended. Execute guarantee: for every command, remote and store,
  \<^verbatim>\<open>press_button\<close> has run the command's \<^verbatim>\<open>execute\<close> on the store when it returns, and
  the light of the command shows it (on for a turn-on or brightness command, with the
  new brightness for the latter, off for a turn-off command). When the history has room
  (\<open>0 \<le> history_count < MAX_HISTORY\<close>, in an array of \<open>MAX_HISTORY\<close> slots) the command
  is the new tip: the count grows by one, the recorded history is the old one followed
  by the command, and the next \<^verbatim>\<open>press_undo\<close> calls this command's \<^verbatim>\<open>undo\<close>. When
  the history is full (\<open>history_count = MAX_HISTORY\<close>) the command is executed but not
  recorded: the remote is returned as it was, array, count and recorded history.
\<close>

theorem execute_guarantee:
  "snd (press_button r c s) = execute c (printf (Pressing_button (name (cmds s c))) s)
   \<and> is_on (lights (snd (press_button r c s)) (light (cmds s c)))
       = (case cmds s c of TurnOffCommand _ _ \<Rightarrow> 0 | _ \<Rightarrow> 1)
   \<and> brightness (lights (snd (press_button r c s)) (light (cmds s c)))
       = (case cmds s c of BrightnessCommand _ _ nb _ \<Rightarrow> nb
          | _ \<Rightarrow> brightness (lights s (light (cmds s c))))
   \<and> (0 \<le> history_count r \<and> history_count r < MAX_HISTORY
        \<and> int (length (history r)) = MAX_HISTORY \<longrightarrow>
        history_count (fst (press_button r c s)) = history_count r + 1
        \<and> recorded (fst (press_button r c s)) = recorded r @ [c]
        \<and> history (fst (press_button r c s)) ! nat (history_count (fst (press_button r c s)) - 1) = c
        \<and> press_undo (fst (press_button r c s)) s'
            = ((fst (press_button r c s))\<lparr>history_count := history_count r\<rparr>,
               undo c (printf Pressing_UNDO_button s')))
   \<and> (history_count r = MAX_HISTORY \<longrightarrow>
        fst (press_button r c s) = r
        \<and> history (fst (press_button r c s)) = history r
        \<and> history_count (fst (press_button r c s)) = history_count r
        \<and> recorded (fst (press_button r c s)) = recorded r)"
proof -
  have store: "snd (press_button r c s) = execute c (printf (Pressing_button (name (cmds s c))) s)"
    by (rule press_button_store)
  have on: "is_on (lights (snd (press_button r c s)) (light (cmds s c)))
       = (case cmds s c of TurnOffCommand _ _ \<Rightarrow> 0 | _ \<Rightarrow> 1)"
    unfolding store
    by (cases "cmds s c")
       (simp_all add: execute_def lights_turn_on_execute lights_turn_off_execute
          lights_brightness_execute)
  have br: "brightness (lights (snd (press_button r c s)) (light (cmds s c)))
       = (case cmds s c of BrightnessCommand _ _ nb _ \<Rightarrow> nb
          | _ \<Rightarrow> brightness (lights s (light (cmds s c))))"
    unfolding store
    by (cases "cmds s c")
       (simp_all add: execute_def lights_turn_on_execute lights_turn_off_execute
          lights_brightness_execute)
  have tip: "history_count (fst (press_button r c s)) = history_count r + 1
        \<and> recorded (fst (press_button r c s)) = recorded r @ [c]
        \<and> history (fst (press_button r c s)) ! nat (history_count (fst (press_button r c s)) - 1) = c
        \<and> press_undo (fst (press_button r c s)) s'
            = ((fst (press_button r c s))\<lparr>history_count := history_count r\<rparr>,
               undo c (printf Pressing_UNDO_button s'))"
    if room: "0 \<le> history_count r" "history_count r < MAX_HISTORY"
      "int (length (history r)) = MAX_HISTORY"
  proof -
    have len: "nat (history_count r) < length (history r)"
      using room by linarith
    have cnt: "history_count (fst (press_button r c s)) = history_count r + 1"
      using room(2) by (simp add: press_button_room)
    have slot0: "history (fst (press_button r c s)) ! nat (history_count r) = c"
      using room(2) len by (simp add: press_button_room)
    have slot: "history (fst (press_button r c s)) ! nat (history_count (fst (press_button r c s)) - 1) = c"
      using slot0 by (simp add: cnt)
    have "0 < history_count (fst (press_button r c s))"
      using cnt room(1) by simp
    then have "press_undo (fst (press_button r c s)) s'
            = ((fst (press_button r c s))\<lparr>history_count := history_count (fst (press_button r c s)) - 1\<rparr>,
               undo (history (fst (press_button r c s)) ! nat (history_count (fst (press_button r c s)) - 1))
                 (printf Pressing_UNDO_button s'))"
      by (rule press_undo_nonempty)
    then have "press_undo (fst (press_button r c s)) s'
            = ((fst (press_button r c s))\<lparr>history_count := history_count r\<rparr>,
               undo c (printf Pressing_UNDO_button s'))"
      by (simp add: cnt slot0)
    with cnt slot recorded_press_button_room [OF room] show ?thesis by simp
  qed
  have full: "fst (press_button r c s) = r
        \<and> history (fst (press_button r c s)) = history r
        \<and> history_count (fst (press_button r c s)) = history_count r
        \<and> recorded (fst (press_button r c s)) = recorded r"
    if "history_count r = MAX_HISTORY"
    using that by (simp add: press_button_full)
  from store on br tip full show ?thesis by blast
qed

theorem execute_guarantee_witness:
  "0 \<le> history_count demo_remote \<and> history_count demo_remote < MAX_HISTORY
   \<and> int (length (history demo_remote)) = MAX_HISTORY
   \<and> snd (press_button demo_remote 4 demo_store)
       = execute 4 (printf (Pressing_button (name (cmds demo_store 4))) demo_store)
   \<and> history_count (fst (press_button demo_remote 4 demo_store)) = history_count demo_remote + 1
   \<and> recorded (fst (press_button demo_remote 4 demo_store)) = recorded demo_remote @ [4]
   \<and> history_count (fst (run (replicate 10 (Press 4)) (demo_remote, demo_store))) = MAX_HISTORY
   \<and> fst (press_button (fst (run (replicate 10 (Press 4)) (demo_remote, demo_store))) 2 demo_store)
       = fst (run (replicate 10 (Press 4)) (demo_remote, demo_store))"
proof -
  have h: "0 \<le> history_count demo_remote \<and> history_count demo_remote < MAX_HISTORY
      \<and> int (length (history demo_remote)) = MAX_HISTORY"
    by (simp add: demo_remote_def create_remote_def MAX_HISTORY_def)
  have f: "history_count (fst (run (replicate 10 (Press 4)) (demo_remote, demo_store))) = MAX_HISTORY"
    by code_simp
  from execute_guarantee [of demo_remote 4 demo_store]
    execute_guarantee [of "fst (run (replicate 10 (Press 4)) (demo_remote, demo_store))" 2 demo_store]
    h f
  show ?thesis by blast
qed

text \<open>
  C4 as stated fails when the history is full: after ten presses of \<^verbatim>\<open>turn_on\<close>
  (address 1) in the demonstration, pressing \<^verbatim>\<open>turn_off\<close> (address 2) turns the light
  off, but the tip of the history is still \<^verbatim>\<open>turn_on\<close>.
\<close>

theorem execute_guarantee_counterexample:
  "is_on (lights (snd (run (replicate 10 (Press 1) @ [Press 2]) (demo_remote, demo_store))) 0) = 0
   \<and> history_count (fst (run (replicate 10 (Press 1) @ [Press 2]) (demo_remote, demo_store))) = 10
   \<and> history (fst (run (replicate 10 (Press 1) @ [Press 2]) (demo_remote, demo_store))) ! 9 = 1
   \<and> recorded (fst (run (replicate 10 (Press 1) @ [Press 2]) (demo_remote, demo_store)))
       = replicate 10 1"
  by code_simp

text \<open>
  C5. Boundary no-ops. \<^verbatim>\<open>press_undo\<close> on an empty history (\<open>history_count = 0\<close>) returns
  the remote as it was, array and count, and a store in which only the output has
  changed, by the line ``Nothing to undo'': no effect of any command is called and the
  lights and command objects are as before. \<^verbatim>\<open>redo_command\<close> at the tip of the history
  (\<open>current_index = history_size - 1\<close>) returns the manager as it was and a world in
  which only the output has changed, by the line ``Nothing to redo''.
\<close>

theorem boundary_no_ops:
  assumes "history_count r = 0" and "current_index m = history_size m - 1"
  shows "press_undo r s = (r, s\<lparr>out := out s @ [Nothing_to_undo]\<rparr>)
       \<and> lights (snd (press_undo r s)) = lights s
       \<and> cmds (snd (press_undo r s)) = cmds s
       \<and> redo_command cs m w = (m, w\<lparr>stdout := stdout w @ [Nothing_to_redo]\<rparr>)
       \<and> editor (snd (redo_command cs m w)) = editor w
       \<and> freed (snd (redo_command cs m w)) = freed w"
  using assms by (simp add: press_undo_empty redo_command_at_tip)

theorem boundary_no_ops_witness:
  "history_count demo_remote = 0
   \<and> current_index (demo_manager\<lparr>command_history := (command_history demo_manager)[0 := 7],
        current_index := 0, history_size := 1\<rparr>)
     = history_size (demo_manager\<lparr>command_history := (command_history demo_manager)[0 := 7],
        current_index := 0, history_size := 1\<rparr>) - 1
   \<and> press_undo demo_remote demo_store
     = (demo_remote, demo_store\<lparr>out := out demo_store @ [Nothing_to_undo]\<rparr>)
   \<and> redo_command demo_cs
        (demo_manager\<lparr>command_history := (command_history demo_manager)[0 := 7],
           current_index := 0, history_size := 1\<rparr>) demo_world
     = (demo_manager\<lparr>command_history := (command_history demo_manager)[0 := 7],
           current_index := 0, history_size := 1\<rparr>,
        demo_world\<lparr>stdout := stdout demo_world @ [Nothing_to_redo]\<rparr>)"
proof -
  have h1: "history_count demo_remote = 0"
    by (simp add: demo_remote_def create_remote_def)
  have h2: "current_index (demo_manager\<lparr>command_history := (command_history demo_manager)[0 := 7],
        current_index := 0, history_size := 1\<rparr>)
     = history_size (demo_manager\<lparr>command_history := (command_history demo_manager)[0 := 7],
        current_index := 0, history_size := 1\<rparr>) - 1"
    by simp
  from boundary_no_ops [OF h1 h2] h1 h2 show ?thesis by blast
qed

text \<open>
  C6. Cursor bounds: starting from \<^verbatim>\<open>create_remote\<close>, after every sequence of
  \<^verbatim>\<open>press_button\<close> and \<^verbatim>\<open>press_undo\<close> calls, on any commands and any store, the count
  \<open>history_count\<close> is between 0 and \<open>MAX_HISTORY\<close>; the cursor \<open>history_count - 1\<close> is
  therefore between \<open>-1\<close> and \<open>MAX_HISTORY - 1\<close>, and the count is 0 at construction.
\<close>

theorem cursor_bounds:
  "history_count (create_remote junk) = 0 \<and>
   0 \<le> history_count (fst (run ops (create_remote junk, s))) \<and>
   history_count (fst (run ops (create_remote junk, s))) \<le> MAX_HISTORY \<and>
   - 1 \<le> history_count (fst (run ops (create_remote junk, s))) - 1 \<and>
   history_count (fst (run ops (create_remote junk, s))) - 1 \<le> MAX_HISTORY - 1"
proof -
  have "0 \<le> history_count (fst (create_remote junk, s)) \<and>
        history_count (fst (create_remote junk, s)) \<le> MAX_HISTORY"
    by (simp add: create_remote_def MAX_HISTORY_def)
  from run_count_bounds [OF this, of ops] show ?thesis
    by (simp add: create_remote_def)
qed

text \<open>
  C7. Redo. The command manager has a redo operation, \<^verbatim>\<open>redo_command\<close>. When the cursor
  is not at the tip (\<open>current_index + 1 < history_size\<close>) it moves \<open>current_index\<close>
  forward by one and then calls \<^verbatim>\<open>execute\<close> of the command now at the cursor, after
  printing its line. It stores nothing: the array and \<open>history_size\<close> are as before, so
  the command is not appended again and nothing after it is cut off. An
  \<^verbatim>\<open>undo_command\<close> after it leads back to the manager as it was and calls \<^verbatim>\<open>undo\<close> of
  that same command. Passing that command to \<^verbatim>\<open>execute_command\<close> instead makes the
  same call of its \<^verbatim>\<open>execute\<close> and leaves the same cursor and array, but destroys the
  entries after the old cursor and cuts \<open>history_size\<close> down to end at the new one.
\<close>

theorem redo_reexecutes:
  assumes "current_index m + 1 < history_size m"
  shows "redo_command cs m w =
           (m\<lparr>current_index := current_index m + 1\<rparr>,
            cmd_execute (cs (command_history m ! nat (current_index m + 1)))
              (wprintf (Redoing (cmd_name (cs (command_history m ! nat (current_index m + 1))))) w))
       \<and> current_index (fst (redo_command cs m w)) = current_index m + 1
       \<and> command_history (fst (redo_command cs m w)) = command_history m
       \<and> history_size (fst (redo_command cs m w)) = history_size m
       \<and> (- 1 \<le> current_index m \<longrightarrow>
            fst (undo_command cs (fst (redo_command cs m w)) w') = m
            \<and> snd (undo_command cs (fst (redo_command cs m w)) w')
                = cmd_undo (cs (command_history m ! nat (current_index m + 1)))
                    (wprintf (Undoing (cmd_name (cs (command_history m ! nat (current_index m + 1))))) w'))
       \<and> (execute_command cs m (command_history m ! nat (current_index m + 1)) w = Some (m2, w2) \<longrightarrow>
            m2 = (fst (redo_command cs m w))\<lparr>history_size := current_index m + 2\<rparr>
            \<and> w2 = fold (\<lambda>i. cmd_destroy (cs (command_history m ! nat i)))
                     [current_index m + 1 .. history_size m - 1]
                     (cmd_execute (cs (command_history m ! nat (current_index m + 1)))
                        (wprintf (Executing (cmd_name (cs (command_history m ! nat (current_index m + 1))))) w)))"
proof -
  have eq: "redo_command cs m w =
           (m\<lparr>current_index := current_index m + 1\<rparr>,
            cmd_execute (cs (command_history m ! nat (current_index m + 1)))
              (wprintf (Redoing (cmd_name (cs (command_history m ! nat (current_index m + 1))))) w))"
    using assms by (rule redo_command_before_tip)
  have again: "undo_command cs (m\<lparr>current_index := current_index m + 1\<rparr>) w'
      = (m, cmd_undo (cs (command_history m ! nat (current_index m + 1)))
                    (wprintf (Undoing (cmd_name (cs (command_history m ! nat (current_index m + 1))))) w'))"
    if "- 1 \<le> current_index m"
    using that by (simp add: undo_command_def Let_def)
  have anew: "m2 = m\<lparr>current_index := current_index m + 1, history_size := current_index m + 2\<rparr>
            \<and> w2 = fold (\<lambda>i. cmd_destroy (cs (command_history m ! nat i)))
                     [current_index m + 1 .. history_size m - 1]
                     (cmd_execute (cs (command_history m ! nat (current_index m + 1)))
                        (wprintf (Executing (cmd_name (cs (command_history m ! nat (current_index m + 1))))) w))"
    if "execute_command cs m (command_history m ! nat (current_index m + 1)) w = Some (m2, w2)"
    using execute_command_Some [OF that] by simp
  from eq again anew show ?thesis by simp
qed

theorem redo_reexecutes_witness:
  "current_index \<lparr>command_history = 1 # 2 # 3 # replicate 47 0, current_index = 0, history_size = 3\<rparr> + 1
     < history_size \<lparr>command_history = 1 # 2 # 3 # replicate 47 0, current_index = 0, history_size = 3\<rparr>
   \<and> - 1 \<le> current_index \<lparr>command_history = 1 # 2 # 3 # replicate 47 0, current_index = 0, history_size = 3\<rparr>
   \<and> execute_command demo_cs
        \<lparr>command_history = 1 # 2 # 3 # replicate 47 0, current_index = 0, history_size = 3\<rparr>
        (command_history \<lparr>command_history = 1 # 2 # 3 # replicate 47 0, current_index = 0, history_size = 3\<rparr>
           ! nat (current_index \<lparr>command_history = 1 # 2 # 3 # replicate 47 0, current_index = 0, history_size = 3\<rparr> + 1))
        demo_world
     = Some (\<lparr>command_history = 1 # 2 # 3 # replicate 47 0, current_index = 1, history_size = 2\<rparr>,
             \<lparr>editor = [(0, 2)], stdout = [Executing ''Copy''], freed = [2, 3]\<rparr>)
   \<and> redo_command demo_cs
        \<lparr>command_history = 1 # 2 # 3 # replicate 47 0, current_index = 0, history_size = 3\<rparr> demo_world
     = (\<lparr>command_history = 1 # 2 # 3 # replicate 47 0, current_index = 1, history_size = 3\<rparr>,
        \<lparr>editor = [(0, 2)], stdout = [Redoing ''Copy''], freed = []\<rparr>)
   \<and> fst (undo_command demo_cs (fst (redo_command demo_cs
        \<lparr>command_history = 1 # 2 # 3 # replicate 47 0, current_index = 0, history_size = 3\<rparr> demo_world))
        demo_world)
     = \<lparr>command_history = 1 # 2 # 3 # replicate 47 0, current_index = 0, history_size = 3\<rparr>"
proof -
  have h: "current_index \<lparr>command_history = 1 # 2 # 3 # replicate 47 0, current_index = 0, history_size = 3\<rparr> + 1
     < history_size \<lparr>command_history = 1 # 2 # 3 # replicate 47 0, current_index = 0, history_size = 3\<rparr>"
    by simp
  have h': "- 1 \<le> current_index \<lparr>command_history = 1 # 2 # 3 # replicate 47 0, current_index = 0, history_size = 3\<rparr>"
    by simp
  have h'': "execute_command demo_cs
        \<lparr>command_history = 1 # 2 # 3 # replicate 47 0, current_index = 0, history_size = 3\<rparr>
        (command_history \<lparr>command_history = 1 # 2 # 3 # replicate 47 0, current_index = 0, history_size = 3\<rparr>
           ! nat (current_index \<lparr>command_history = 1 # 2 # 3 # replicate 47 0, current_index = 0, history_size = 3\<rparr> + 1))
        demo_world
     = Some (\<lparr>command_history = 1 # 2 # 3 # replicate 47 0, current_index = 1, history_size = 2\<rparr>,
             \<lparr>editor = [(0, 2)], stdout = [Executing ''Copy''], freed = [2, 3]\<rparr>)"
    by code_simp
  note r = redo_reexecutes [OF h, of demo_cs demo_world demo_world]
  have "redo_command demo_cs
        \<lparr>command_history = 1 # 2 # 3 # replicate 47 0, current_index = 0, history_size = 3\<rparr> demo_world
     = (\<lparr>command_history = 1 # 2 # 3 # replicate 47 0, current_index = 1, history_size = 3\<rparr>,
        \<lparr>editor = [(0, 2)], stdout = [Redoing ''Copy''], freed = []\<rparr>)"
    using r
    by (simp add: demo_cs_def demo_world_def create_copy_command_def copy_command_execute_def
        recording_copy_text_def wprintf_def)
  with r h h' h'' show ?thesis by blast
qed

text \<open>
  C9, as amended. Silent drop when full: for every command, \<^verbatim>\<open>press_button\<close> called
  with \<open>history_count = MAX_HISTORY\<close> prints the line of the button, calls the command's
  \<^verbatim>\<open>execute\<close> once on the store, and returns the remote as it was: the array and the
  count are unchanged, so no entry is evicted and the command is not recorded. A
  \<^verbatim>\<open>press_undo\<close> right after it does what it would have done to the remote before the
  call: it steps the count back and calls \<^verbatim>\<open>undo\<close> of the command in the last slot,
  whichever command was just pressed.
\<close>

theorem silent_drop_when_full:
  assumes "history_count r = MAX_HISTORY"
  shows "press_button r c s = (r, execute c (printf (Pressing_button (name (cmds s c))) s))
       \<and> history (fst (press_button r c s)) = history r
       \<and> history_count (fst (press_button r c s)) = history_count r
       \<and> fst (press_undo (fst (press_button r c s)) s') = fst (press_undo r s')
       \<and> snd (press_undo (fst (press_button r c s)) s')
           = undo (history r ! nat (MAX_HISTORY - 1)) (printf Pressing_UNDO_button s')
       \<and> run [Press c, Undo] (r, s)
           = (r\<lparr>history_count := MAX_HISTORY - 1\<rparr>,
              undo (history r ! nat (MAX_HISTORY - 1))
                (printf Pressing_UNDO_button
                  (execute c (printf (Pressing_button (name (cmds s c))) s))))"
proof -
  have full: "fst (press_button r c s) = r"
    using assms by (simp add: press_button_full)
  have "press_button r c s = (fst (press_button r c s), snd (press_button r c s))"
    by simp
  then have eq: "press_button r c s = (r, execute c (printf (Pressing_button (name (cmds s c))) s))"
    using full by (simp only: press_button_store)
  have "0 < history_count r"
    using assms by (simp add: MAX_HISTORY_def)
  then have u: "press_undo r s' = (r\<lparr>history_count := MAX_HISTORY - 1\<rparr>,
      undo (history r ! nat (MAX_HISTORY - 1)) (printf Pressing_UNDO_button s'))" for s'
    using assms by (simp add: press_undo_nonempty)
  have "run [Press c, Undo] (r, s)
      = press_undo r (execute c (printf (Pressing_button (name (cmds s c))) s))"
    by (simp add: run_def eq)
  with eq full u show ?thesis by simp
qed

theorem silent_drop_when_full_witness:
  "history_count (fst (run (replicate 10 (Press 1)) (demo_remote, demo_store))) = MAX_HISTORY
   \<and> press_button (fst (run (replicate 10 (Press 1)) (demo_remote, demo_store))) 2 demo_store
       = (fst (run (replicate 10 (Press 1)) (demo_remote, demo_store)),
          execute 2 (printf (Pressing_button (name (cmds demo_store 2))) demo_store))"
proof -
  have h: "history_count (fst (run (replicate 10 (Press 1)) (demo_remote, demo_store))) = MAX_HISTORY"
    by code_simp
  from silent_drop_when_full [OF h] h show ?thesis by blast
qed

text \<open>
  C9 as stated fails in its last clause, that the action just performed can never be
  undone. In the demonstration, fill the history with nine presses of \<^verbatim>\<open>turn_on\<close> and
  one of \<^verbatim>\<open>bright\<close> (address 4), so that \<^verbatim>\<open>bright\<close> is in the last slot, and press
  \<^verbatim>\<open>dim\<close>: the light is on at 25. A press of \<^verbatim>\<open>bright\<close> is now dropped from the history
  and sets the light to 90, saving 25 in the command object; the undo that follows calls
  the undo of that same object and brings the light back to 25, its state before the
  dropped press.
\<close>

theorem silent_drop_counterexample:
  "history_count (fst (run (replicate 9 (Press 1) @ [Press 4, Press 3]) (demo_remote, demo_store))) = 10
   \<and> lights (snd (run (replicate 9 (Press 1) @ [Press 4, Press 3]) (demo_remote, demo_store))) 0
       = \<lparr>is_on = 1, brightness = 25\<rparr>
   \<and> fst (run (replicate 9 (Press 1) @ [Press 4, Press 3, Press 4]) (demo_remote, demo_store))
       = fst (run (replicate 9 (Press 1) @ [Press 4, Press 3]) (demo_remote, demo_store))
   \<and> lights (snd (run (replicate 9 (Press 1) @ [Press 4, Press 3, Press 4]) (demo_remote, demo_store))) 0
       = \<lparr>is_on = 1, brightness = 90\<rparr>
   \<and> lights (snd (run (replicate 9 (Press 1) @ [Press 4, Press 3, Press 4, Undo])
        (demo_remote, demo_store))) 0
       = \<lparr>is_on = 1, brightness = 25\<rparr>"
  by code_simp

text \<open>
  C10. Brightness side effect and partial inverse. On a brightness command for light
  \<open>l\<close> with new brightness \<open>nb\<close>, \<^verbatim>\<open>brightness_execute\<close> saves the light's brightness in
  \<open>old_brightness\<close>, sets the brightness to \<open>nb\<close> and sets \<open>is_on\<close> to 1;
  \<^verbatim>\<open>brightness_undo\<close> writes \<open>old_brightness\<close> back to the brightness and leaves
  \<open>is_on\<close> as it finds it. So executing and then undoing the command restores the
  brightness and leaves the light on, also when it was off before.
\<close>

theorem brightness_partial_inverse:
  assumes "cmds s c = BrightnessCommand n l nb ob"
  shows "cmds (brightness_execute c s) c = BrightnessCommand n l nb (brightness (lights s l))
       \<and> lights (brightness_execute c s) l = \<lparr>is_on = 1, brightness = nb\<rparr>
       \<and> brightness (lights (brightness_undo c s) l) = ob
       \<and> is_on (lights (brightness_undo c s) l) = is_on (lights s l)
       \<and> lights (brightness_undo c (brightness_execute c s)) l
           = \<lparr>is_on = 1, brightness = brightness (lights s l)\<rparr>
       \<and> (is_on (lights s l) = 0 \<longrightarrow>
            is_on (lights (undo c (execute c s)) l) = 1
            \<and> brightness (lights (undo c (execute c s)) l) = brightness (lights s l))"
proof -
  have c1: "cmds (brightness_execute c s) c = BrightnessCommand n l nb (brightness (lights s l))"
    using assms by (simp add: cmds_brightness_execute)
  have l1: "lights (brightness_execute c s) l = \<lparr>is_on = 1, brightness = nb\<rparr>"
    using assms by (simp add: lights_brightness_execute)
  have u1: "brightness (lights (brightness_undo c s) l) = ob"
    using assms by (simp add: lights_brightness_undo)
  have u2: "is_on (lights (brightness_undo c s) l) = is_on (lights s l)"
    using assms by (simp add: lights_brightness_undo)
  have eu: "lights (brightness_undo c (brightness_execute c s)) l
           = \<lparr>is_on = 1, brightness = brightness (lights s l)\<rparr>"
    using c1 l1 by (simp add: lights_brightness_undo)
  have ex: "execute c s = brightness_execute c s"
    using assms by (simp add: execute_def)
  have un: "undo c (brightness_execute c s) = brightness_undo c (brightness_execute c s)"
    using c1 by (simp add: undo_def)
  from c1 l1 u1 u2 eu show ?thesis
    by (simp add: ex un)
qed

theorem brightness_partial_inverse_witness:
  "cmds demo_store 3 = BrightnessCommand ''Set Brightness 25%'' 0 25 0
   \<and> is_on (lights demo_store 0) = 0
   \<and> is_on (lights (undo 3 (execute 3 demo_store)) 0) = 1
   \<and> brightness (lights (undo 3 (execute 3 demo_store)) 0) = brightness (lights demo_store 0)"
proof -
  have h: "cmds demo_store 3 = BrightnessCommand ''Set Brightness 25%'' 0 25 0"
    by code_simp
  have off: "is_on (lights demo_store 0) = 0"
    by code_simp
  from brightness_partial_inverse [OF h] h off show ?thesis by blast
qed

end
